theory Spec2Isabelle
  imports Main "HOL-Library.Sublist"
begin

section \<open>Python text\<close>

text \<open>
  A Python \<open>str\<close> is a sequence of code points. It is modelled as a \<open>string\<close> whose
  characters are the code points below 256; on that range the tables below are the ones
  Python's \<open>str.isspace\<close>, \<open>str.splitlines\<close> and \<open>str.lower\<close> use. \<open>s.startswith(p)\<close>
  is \<open>prefix p s\<close>, \<open>s.endswith(p)\<close> is \<open>suffix p s\<close> and \<open>p in s\<close> is \<open>sublist p s\<close>.
\<close>

definition is_space :: "char \<Rightarrow> bool" where
  \<comment> \<open>the characters \<open>str.strip()\<close> removes: TAB, LF, VT, FF, CR, FS, GS, RS, US, space,
      NEL and the no-break space\<close>
  "is_space c =
     (let n = (of_char c :: nat)
      in (9 \<le> n \<and> n \<le> 13) \<or> (28 \<le> n \<and> n \<le> 31) \<or> n = 32 \<or> n = 133 \<or> n = 160)"

definition is_linebreak :: "char \<Rightarrow> bool" where
  \<comment> \<open>the line boundaries of \<open>str.splitlines()\<close>: LF, VT, FF, CR, FS, GS, RS and NEL\<close>
  "is_linebreak c =
     (let n = (of_char c :: nat)
      in (10 \<le> n \<and> n \<le> 13) \<or> (28 \<le> n \<and> n \<le> 30) \<or> n = 133)"

definition lower_char :: "char \<Rightarrow> char" where
  \<comment> \<open>\<open>A\<close> to \<open>Z\<close>, and the capital letters of Latin-1 (0xC0 to 0xDE without the
      multiplication sign 0xD7), move 32 places up; every other character stays\<close>
  "lower_char c =
     (let n = (of_char c :: nat)
      in if (65 \<le> n \<and> n \<le> 90) \<or> (192 \<le> n \<and> n \<le> 222 \<and> n \<noteq> 215)
         then char_of (n + 32) else c)"

definition lower :: "string \<Rightarrow> string" where
  "lower s = map lower_char s"

definition lstrip :: "string \<Rightarrow> string" where
  "lstrip s = dropWhile is_space s"

definition rstrip :: "string \<Rightarrow> string" where
  "rstrip s = rev (dropWhile is_space (rev s))"

definition strip :: "string \<Rightarrow> string" where
  "strip s = rstrip (lstrip s)"

text \<open>
  \<open>splitlines_from acc s\<close> reads \<open>s\<close> with \<open>acc\<close> the line begun so far. A line boundary
  closes the line (CR followed by LF is one boundary); the end of the text closes a line
  only when that line is not empty, so \<open>"a\n"\<close> has the one line \<open>"a"\<close> and the empty
  text has no line.
\<close>

fun splitlines_from :: "string \<Rightarrow> string \<Rightarrow> string list" where
  "splitlines_from acc [] = (if acc = [] then [] else [acc])"
| "splitlines_from acc [c] =
     (if is_linebreak c then [acc] else [acc @ [c]])"
| "splitlines_from acc (c # d # ds) =
     (if c = CHR 0x0D \<and> d = CHR 0x0A then acc # splitlines_from [] ds
      else if is_linebreak c then acc # splitlines_from [] (d # ds)
      else splitlines_from (acc @ [c]) (d # ds))"

definition splitlines :: "string \<Rightarrow> string list" where
  "splitlines s = splitlines_from [] s"

text \<open>\<open>sep.join(lines)\<close>\<close>

fun join :: "string \<Rightarrow> string list \<Rightarrow> string" where
  "join sep [] = []"
| "join sep [l] = l"
| "join sep (l # m # ls) = l @ sep @ join sep (m # ls)"

section \<open>modules/generator.py: strip_code_block\<close>

text \<open>
  \<^verbatim>\<open>
  def strip_code_block(text: str) -> str:
      if text.startswith("```python"):
          text = text[len("```python"):].lstrip()
      elif text.startswith("```"):
          text = text[len("```"):].lstrip()
      if text.endswith("```"):
          text = text[:-3].rstrip()
      return text
  \<close>
\<close>

definition strip_code_block :: "string \<Rightarrow> string" where
  "strip_code_block text =
     (let text = (if prefix ''```python'' text then lstrip (drop (length ''```python'') text)
                  else if prefix ''```'' text then lstrip (drop (length ''```'') text)
                  else text)
      in if suffix ''```'' text then rstrip (take (length text - 3) text) else text)"

text \<open>
  What the specification asks of a text carrying both fences, in its own words: the text
  without one leading fence (\<open>```python\<close> where it is there, \<open>```\<close> otherwise) and without
  one trailing \<open>```\<close>, the whitespace next to the removed fences trimmed.
\<close>

definition spec_without_both_fences :: "string \<Rightarrow> string" where
  "spec_without_both_fences text =
     (let n = (if prefix ''```python'' text then length ''```python'' else length ''```'')
      in strip (take (length text - n - 3) (drop n text)))"

section \<open>Exceptions\<close>

text \<open>
  A raised exception is a value: its class and the text \<open>str(e)\<close> gives. A function that
  may raise returns \<open>exn + 'a\<close>, with \<open>Inl\<close> the exception.
\<close>

datatype exn_class = ImportError | ValueError | NameError | TypeError | IndexError | OtherError

datatype exn = Exn exn_class string

fun str_exn :: "exn \<Rightarrow> string" where
  "str_exn (Exn c msg) = msg"

section \<open>modules/executor.py: run_etl_script\<close>

text \<open>
  \<^verbatim>\<open>
  def run_etl_script(code: str) -> Tuple[str, str]:
      try:
          with tempfile.NamedTemporaryFile(mode="w", suffix=".py", delete=False) as f:
              f.write(code)
              temp_path = f.name
          result = subprocess.run(["python", temp_path], capture_output=True, text=True)
          try:
              os.unlink(temp_path)
          except:
              pass
          filtered_stderr = "\n".join(
              line for line in result.stderr.splitlines()
              if "numpy/_core/getlimits.py" not in line
          )
          return result.stdout.strip(), filtered_stderr.strip()
      except Exception as e:
          return "", f"<U+274C> Error running script: {e}"
  \<close>
  Writing the temporary file and running the child process belong to the operating
  system: \<open>run_child code\<close> is what they do with the script, either the exception they
  raise or the captured \<open>(stdout, stderr)\<close> of the child. A failure to delete the file is
  swallowed by the source and leaves no trace in the result.

  The cross mark U+274C lies outside the modelled range of characters; it stands here by
  the three bytes of its UTF-8 form. None of them is whitespace, a line boundary or a
  capital letter, as the cross mark is none of them in Python.
\<close>

type_synonym child_process = "string \<Rightarrow> exn + string \<times> string"

definition cross_mark :: string where
  "cross_mark = [CHR 0xE2, CHR 0x9D, CHR 0x8C]"

definition run_etl_script :: "child_process \<Rightarrow> string \<Rightarrow> string \<times> string" where
  "run_etl_script run_child code =
     (case run_child code of
        Inl e \<Rightarrow> ('''', cross_mark @ '' Error running script: '' @ str_exn e)
      | Inr (result_stdout, result_stderr) \<Rightarrow>
          (let filtered_stderr =
                 join [CHR 0x0A]
                   (filter (\<lambda>line. \<not> sublist ''numpy/_core/getlimits.py'' line)
                      (splitlines result_stderr))
           in (strip result_stdout, strip filtered_stderr)))"

section \<open>main.py: POST /execute-code\<close>

text \<open>
  \<^verbatim>\<open>
  def execute_code(code: str = Body(..., embed=True)):
      try:
          stdout, stderr = run_etl_script(code)
          return {
              "success": not stderr or "error" not in stderr.lower(),
              "stdout": stdout,
              "stderr": stderr
          }
      except Exception as e:
          raise HTTPException(status_code=500, detail=f"Execution error: {str(e)}")
  \<close>
  A handler returns its response or raises an \<open>HTTPException\<close>. Nothing in the body of
  this one raises (\<open>run_etl_script\<close> catches what the child process raises), so its
  \<open>except\<close> branch has no counterpart here.
\<close>

datatype http_exception = HTTPException nat string

record ExecutionResponse =
  success :: bool
  stdout :: string
  stderr :: string

definition execute_code :: "child_process \<Rightarrow> string \<Rightarrow> http_exception + ExecutionResponse" where
  "execute_code run_child code =
     (case run_etl_script run_child code of
        (out, err) \<Rightarrow>
          Inr \<lparr>success = (err = [] \<or> \<not> sublist ''error'' (lower err)),
               stdout = out, stderr = err\<rparr>)"

text \<open>
  The specification's words for the test on stderr: the text holds the word, compared
  without regard to case, when some run of consecutive characters of the text equals the
  word once both are put in lower case.
\<close>

definition contains_ignoring_case :: "string \<Rightarrow> string \<Rightarrow> bool" where
  "contains_ignoring_case word text = (\<exists>w. sublist w text \<and> lower w = lower word)"

section \<open>Python values and the world outside the program\<close>

text \<open>
  Credentials are a \<open>Dict[str, Any]\<close> and a preview is \<open>Any\<close>: values are strings,
  integers, booleans, \<open>None\<close>, lists, tuples, dictionaries with string keys, and objects of
  other classes (a database row object, an \<open>ObjectId\<close>, a date), which are opaque here.
  Floating-point numbers are left out.
\<close>

datatype pyval =
    PStr string
  | PInt int
  | PBool bool
  | PNone
  | PList "pyval list"
  | PTuple "pyval list"
  | PDict "(string \<times> pyval) list"
  | PObject string

type_synonym creds = "string \<rightharpoonup> pyval"

text \<open>\<open>creds.get(key, default)\<close>\<close>

definition dict_get :: "creds \<Rightarrow> string \<Rightarrow> pyval \<Rightarrow> pyval" where
  "dict_get creds key dflt = (case creds key of None \<Rightarrow> dflt | Some v \<Rightarrow> v)"

text \<open>
  The database drivers, pandas, \<open>json\<close> and the conversions of the interpreter are not code
  of this repository. A \<open>world\<close> says what each of them does when called; every function
  below takes the world it runs in, and no theorem assumes more of it than its statement
  says.

  A DB-API connection is what it answers to a statement: the exception raised on the way
  (by \<open>cursor()\<close>, \<open>execute\<close>, \<open>fetchall\<close> or \<open>close\<close>), or the column names of
  \<open>cursor.description\<close> with the fetched rows. An sqlite3 connection answers with the
  fetched rows alone, each row the list of its cells.
\<close>

type_synonym dbapi_connection = "string \<Rightarrow> exn + pyval list \<times> pyval list"

type_synonym sqlite_connection = "string \<Rightarrow> exn + pyval list list"

record world =
  py_int :: "pyval \<Rightarrow> exn + int"
    \<comment> \<open>\<open>int(v)\<close>\<close>
  py_str_other :: "pyval \<Rightarrow> exn + string"
    \<comment> \<open>\<open>str(v)\<close> of a value that is not a string\<close>
  psycopg2_connect :: "pyval \<Rightarrow> pyval \<Rightarrow> pyval \<Rightarrow> pyval \<Rightarrow> pyval \<Rightarrow> exn + dbapi_connection"
    \<comment> \<open>\<open>psycopg2.connect(host, port, user, password, database)\<close>\<close>
  pymysql_connect :: "pyval \<Rightarrow> int \<Rightarrow> pyval \<Rightarrow> pyval \<Rightarrow> pyval \<Rightarrow> exn + dbapi_connection"
    \<comment> \<open>\<open>pymysql.connect(host, port, user, password, database)\<close>\<close>
  pyodbc_connect :: "string \<Rightarrow> exn + dbapi_connection"
    \<comment> \<open>\<open>pyodbc.connect(connection_string)\<close>\<close>
  sqlite3_connect :: "pyval \<Rightarrow> exn + sqlite_connection"
    \<comment> \<open>\<open>sqlite3.connect(file_path)\<close>\<close>
  pymongo_find :: "pyval \<Rightarrow> pyval \<Rightarrow> pyval \<Rightarrow> exn + (string \<times> pyval) list list"
    \<comment> \<open>\<open>list(pymongo.MongoClient(uri)[database][collection].find().limit(2))\<close>, then
        \<open>client.close()\<close>; the documents in order, each with its fields in order\<close>
  json_roundtrip :: "pyval \<Rightarrow> exn + pyval"
    \<comment> \<open>\<open>json.loads(json.dumps(v, default=str))\<close>\<close>
  DataFrame_records :: "pyval option \<Rightarrow> pyval list option \<Rightarrow> exn + pyval list"
    \<comment> \<open>\<open>pd.DataFrame(data, columns=columns).to_dict(orient='records')\<close>, either argument
        possibly not given\<close>

text \<open>\<open>str(v)\<close>, and \<open>{v}\<close> in an f-string: a string is its own text.\<close>

definition py_str :: "world \<Rightarrow> pyval \<Rightarrow> exn + string" where
  "py_str w v = (case v of PStr s \<Rightarrow> Inr s | _ \<Rightarrow> py_str_other w v)"

text \<open>
  What the program asks of a database, in the order it asks: the connections it opens,
  with the arguments it passes, and the statements it sends.
\<close>

datatype db_call =
    Psycopg2_connect pyval pyval pyval pyval pyval
  | Pymysql_connect pyval int pyval pyval pyval
  | Pyodbc_connect string
  | Sqlite3_connect pyval
  | Pymongo_find pyval pyval pyval
  | Execute string

section \<open>modules/validator.py: validate_db_connection\<close>

text \<open>
  The second component of the function's result: the pair \<open>(column_names, result)\<close> of a
  successful fetch, or a message.
\<close>

datatype vresult = Fetched "pyval list" "pyval list" | Message string

text \<open>
  \<open>[info[1] for info in cursor.fetchall()]\<close>: a row with fewer than two cells raises
  \<open>IndexError\<close>.
\<close>

fun second_cells :: "pyval list list \<Rightarrow> exn + pyval list" where
  "second_cells [] = Inr []"
| "second_cells (info # infos) =
     (if length info < 2 then Inl (Exn IndexError ''tuple index out of range'')
      else (case second_cells infos of
              Inl e \<Rightarrow> Inl e
            | Inr names \<Rightarrow> Inr (info ! 1 # names)))"

text \<open>
  One statement on an open DB-API connection, as the PostgreSQL, MySQL and MSSQL branches
  run it: the table name is put into the statement, the statement is sent, and the answer
  is the branch's \<open>return True, (column_names, result)\<close>. The calls made so far are \<open>log\<close>.
\<close>

definition select_on ::
  "world \<Rightarrow> dbapi_connection \<Rightarrow> string \<Rightarrow> creds \<Rightarrow> string \<Rightarrow> db_call list
     \<Rightarrow> (exn + bool \<times> vresult) \<times> db_call list" where
  "select_on w connection opening creds closing log =
     (case py_str w (dict_get creds ''table'' (PStr '''')) of
        Inl e \<Rightarrow> (Inl e, log)
      | Inr table \<Rightarrow>
          (let statement = opening @ table @ closing
           in (case connection statement of
                 Inl e \<Rightarrow> (Inl e, log @ [Execute statement])
               | Inr (column_names, result) \<Rightarrow>
                   (Inr (True, Fetched column_names result), log @ [Execute statement]))))"

text \<open>
  The \<open>try\<close> block of \<open>validate_db_connection\<close>, one definition for each branch of its
  \<open>if\<close>/\<open>elif\<close> chain. Each gives what the block comes to (the exception raised, or the
  returned pair) and the calls made on the way.
  \<^verbatim>\<open>
        if db_type == "PostgreSQL":
            connection = psycopg2.connect(
                host=creds.get('host', ''),
                port=creds.get('port', '5432'),
                user=creds.get('user', ''),
                password=creds.get('password', ''),
                database=creds.get('database', '')
            )
            cursor = connection.cursor()
            cursor.execute(f"SELECT * FROM {creds.get('table', '')} LIMIT 2;")
            result = cursor.fetchall()
            column_names = [desc[0] for desc in cursor.description]
            cursor.close()
            connection.close()
            return True, (column_names, result)
  \<close>
\<close>

definition branch_PostgreSQL :: "world \<Rightarrow> creds \<Rightarrow> (exn + bool \<times> vresult) \<times> db_call list" where
  "branch_PostgreSQL w creds =
     (let host = dict_get creds ''host'' (PStr '''');
          port = dict_get creds ''port'' (PStr ''5432'');
          user = dict_get creds ''user'' (PStr '''');
          password = dict_get creds ''password'' (PStr '''');
          database = dict_get creds ''database'' (PStr '''');
          log = [Psycopg2_connect host port user password database]
      in (case psycopg2_connect w host port user password database of
            Inl e \<Rightarrow> (Inl e, log)
          | Inr connection \<Rightarrow>
              select_on w connection ''SELECT * FROM '' creds '' LIMIT 2;'' log))"

text \<open>
  \<^verbatim>\<open>
        elif db_type == "MySQL":
            connection = pymysql.connect(
                host=creds.get('host', ''),
                port=int(creds.get('port', '3306')),
                user=creds.get('user', ''),
                password=creds.get('password', ''),
                database=creds.get('database', '')
            )
            (the rest as for PostgreSQL)
  \<close>
\<close>

definition branch_MySQL :: "world \<Rightarrow> creds \<Rightarrow> (exn + bool \<times> vresult) \<times> db_call list" where
  "branch_MySQL w creds =
     (let host = dict_get creds ''host'' (PStr '''')
      in (case py_int w (dict_get creds ''port'' (PStr ''3306'')) of
            Inl e \<Rightarrow> (Inl e, [])
          | Inr port \<Rightarrow>
              (let user = dict_get creds ''user'' (PStr '''');
                   password = dict_get creds ''password'' (PStr '''');
                   database = dict_get creds ''database'' (PStr '''');
                   log = [Pymysql_connect host port user password database]
               in (case pymysql_connect w host port user password database of
                     Inl e \<Rightarrow> (Inl e, log)
                   | Inr connection \<Rightarrow>
                       select_on w connection ''SELECT * FROM '' creds '' LIMIT 2;'' log))))"

text \<open>
  \<^verbatim>\<open>
        elif db_type == "MSSQL":
            connection = pyodbc.connect(
                f'DRIVER={{ODBC Driver 17 for SQL Server}};SERVER={creds.get("host", "")};'
                f'PORT={creds.get("port", "1433")};UID={creds.get("user", "")};'
                f'PWD={creds.get("password", "")};DATABASE={creds.get("database", "")}'
            )
            cursor = connection.cursor()
            cursor.execute(f"SELECT TOP 2 * FROM {creds.get('table', '')};")
            (the rest as for PostgreSQL)
  \<close>
  The values of an f-string are put into text from left to right; the first one that
  raises ends the evaluation, before any connection is asked for.
\<close>

definition branch_MSSQL :: "world \<Rightarrow> creds \<Rightarrow> (exn + bool \<times> vresult) \<times> db_call list" where
  "branch_MSSQL w creds =
     (case py_str w (dict_get creds ''host'' (PStr '''')) of
        Inl e \<Rightarrow> (Inl e, [])
      | Inr host \<Rightarrow>
     (case py_str w (dict_get creds ''port'' (PStr ''1433'')) of
        Inl e \<Rightarrow> (Inl e, [])
      | Inr port \<Rightarrow>
     (case py_str w (dict_get creds ''user'' (PStr '''')) of
        Inl e \<Rightarrow> (Inl e, [])
      | Inr user \<Rightarrow>
     (case py_str w (dict_get creds ''password'' (PStr '''')) of
        Inl e \<Rightarrow> (Inl e, [])
      | Inr password \<Rightarrow>
     (case py_str w (dict_get creds ''database'' (PStr '''')) of
        Inl e \<Rightarrow> (Inl e, [])
      | Inr database \<Rightarrow>
          (let connection_string =
                 ''DRIVER={ODBC Driver 17 for SQL Server};SERVER='' @ host @ '';''
                 @ ''PORT='' @ port @ '';UID='' @ user @ '';''
                 @ ''PWD='' @ password @ '';DATABASE='' @ database;
               log = [Pyodbc_connect connection_string]
           in (case pyodbc_connect w connection_string of
                 Inl e \<Rightarrow> (Inl e, log)
               | Inr connection \<Rightarrow>
                   select_on w connection ''SELECT TOP 2 * FROM '' creds '';'' log)))))))"

text \<open>
  \<^verbatim>\<open>
        elif db_type == "MongoDB":
            client = pymongo.MongoClient(creds.get('uri', ''))
            db = client[creds.get('database', '')]
            collection = db[creds.get('collection', '')]
            result = list(collection.find().limit(2))
            fields = []
            if result and len(result) > 0:
                fields = list(result[0].keys())
            client.close()
            return True, (fields, result)
  \<close>
\<close>

definition branch_MongoDB :: "world \<Rightarrow> creds \<Rightarrow> (exn + bool \<times> vresult) \<times> db_call list" where
  "branch_MongoDB w creds =
     (let uri = dict_get creds ''uri'' (PStr '''');
          database = dict_get creds ''database'' (PStr '''');
          collection = dict_get creds ''collection'' (PStr '''');
          log = [Pymongo_find uri database collection]
      in (case pymongo_find w uri database collection of
            Inl e \<Rightarrow> (Inl e, log)
          | Inr result \<Rightarrow>
              (let fields = (case result of [] \<Rightarrow> [] | first # _ \<Rightarrow> map (PStr \<circ> fst) first)
               in (Inr (True, Fetched fields (map PDict result)), log))))"

text \<open>
  \<^verbatim>\<open>
        elif db_type == "SQLite":
            connection = sqlite3.connect(creds.get('file_path', ''))
            cursor = connection.cursor()
            cursor.execute(f"SELECT * FROM {creds.get('table', '')} LIMIT 2;")
            result = cursor.fetchall()
            cursor.execute(f"PRAGMA table_info({creds.get('table', '')});")
            column_names = [info[1] for info in cursor.fetchall()]
            cursor.close()
            connection.close()
            return True, (column_names, result)
  \<close>
  The table name is put into text twice by the source, with the same outcome both times;
  the second statement reuses the text of the first.
\<close>

definition sqlite_table_info ::
  "sqlite_connection \<Rightarrow> string \<Rightarrow> pyval list list \<Rightarrow> db_call list
     \<Rightarrow> (exn + bool \<times> vresult) \<times> db_call list" where
  "sqlite_table_info connection table result log =
     (let pragma = ''PRAGMA table_info('' @ table @ '');''
      in (case connection pragma of
            Inl e \<Rightarrow> (Inl e, log @ [Execute pragma])
          | Inr infos \<Rightarrow>
              (case second_cells infos of
                 Inl e \<Rightarrow> (Inl e, log @ [Execute pragma])
               | Inr column_names \<Rightarrow>
                   (Inr (True, Fetched column_names (map PTuple result)),
                    log @ [Execute pragma]))))"

definition branch_SQLite :: "world \<Rightarrow> creds \<Rightarrow> (exn + bool \<times> vresult) \<times> db_call list" where
  "branch_SQLite w creds =
     (let file_path = dict_get creds ''file_path'' (PStr '''');
          log = [Sqlite3_connect file_path]
      in (case sqlite3_connect w file_path of
            Inl e \<Rightarrow> (Inl e, log)
          | Inr connection \<Rightarrow>
              (case py_str w (dict_get creds ''table'' (PStr '''')) of
                 Inl e \<Rightarrow> (Inl e, log)
               | Inr table \<Rightarrow>
                   (let select = ''SELECT * FROM '' @ table @ '' LIMIT 2;''
                    in (case connection select of
                          Inl e \<Rightarrow> (Inl e, log @ [Execute select])
                        | Inr result \<Rightarrow>
                            sqlite_table_info connection table result
                              (log @ [Execute select]))))))"

text \<open>
  \<^verbatim>\<open>
        else:
            return False, f"Unsupported database type: {db_type}"
  \<close>
\<close>

definition validate_db_connection_try ::
  "world \<Rightarrow> string \<Rightarrow> creds \<Rightarrow> (exn + bool \<times> vresult) \<times> db_call list" where
  "validate_db_connection_try w db_type creds =
     (if db_type = ''PostgreSQL'' then branch_PostgreSQL w creds
      else if db_type = ''MySQL'' then branch_MySQL w creds
      else if db_type = ''MSSQL'' then branch_MSSQL w creds
      else if db_type = ''MongoDB'' then branch_MongoDB w creds
      else if db_type = ''SQLite'' then branch_SQLite w creds
      else (Inr (False, Message (''Unsupported database type: '' @ db_type)), []))"

text \<open>
  \<^verbatim>\<open>
      except Exception as e:
          return False, str(e)
  \<close>
\<close>

definition validate_db_connection ::
  "world \<Rightarrow> string \<Rightarrow> creds \<Rightarrow> (bool \<times> vresult) \<times> db_call list" where
  "validate_db_connection w db_type creds =
     (case validate_db_connection_try w db_type creds of
        (Inl e, log) \<Rightarrow> ((False, Message (str_exn e)), log)
      | (Inr r, log) \<Rightarrow> (r, log))"

section \<open>modules/validator.py: validate_and_fetch_schema\<close>

text \<open>
  \<^verbatim>\<open>
  def validate_and_fetch_schema(db_type, creds):
      try:
          success, result = validate_db_connection(db_type, creds)
          if success:
              if isinstance(result, tuple) and len(result) == 2:
                  column_names, data = result
                  if db_type == "MongoDB":
                      if data and len(data) > 0:
                          import json
                          data_str = json.loads(json.dumps(data, default=str))
                          df = pd.DataFrame(data_str)
                      else:
                          df = pd.DataFrame(columns=column_names)
                  else:
                      df = pd.DataFrame(data, columns=column_names)
                  preview_data = df.to_dict(orient='records')
                  status = f"Connected to {db_type} successfully!"
                  return status, (column_names, preview_data)
              else:
                  return "Connected but couldn't fetch schema", []
          else:
              return f"Error: {result}", []
      except Exception as e:
          return f"Error: {str(e)}", []
  \<close>
  First the \<open>try\<close> block, which pandas, \<open>json\<close> or the formatting of \<open>result\<close> may leave
  by an exception, then the function with its handler.
\<close>

definition preview_records ::
  "world \<Rightarrow> string \<Rightarrow> pyval list \<Rightarrow> pyval list \<Rightarrow> exn + pyval list" where
  \<comment> \<open>the lines from \<open>if db_type == "MongoDB"\<close> to \<open>preview_data = ...\<close>\<close>
  "preview_records w db_type column_names data =
     (if db_type = ''MongoDB'' then
        (if data \<noteq> [] then
           (case json_roundtrip w (PList data) of
              Inl e \<Rightarrow> Inl e
            | Inr data_str \<Rightarrow> DataFrame_records w (Some data_str) None)
         else DataFrame_records w None (Some column_names))
      else DataFrame_records w (Some (PList data)) (Some column_names))"

definition validate_and_fetch_schema_try ::
  "world \<Rightarrow> string \<Rightarrow> creds \<Rightarrow> exn + string \<times> pyval" where
  "validate_and_fetch_schema_try w db_type creds =
     (case fst (validate_db_connection w db_type creds) of
        (True, Fetched column_names data) \<Rightarrow>
          (case preview_records w db_type column_names data of
             Inl e \<Rightarrow> Inl e
           | Inr preview_data \<Rightarrow>
               Inr (''Connected to '' @ db_type @ '' successfully!'',
                    PTuple [PList column_names, PList preview_data]))
      | (True, Message m) \<Rightarrow> Inr (''Connected but couldn't fetch schema'', PList [])
      | (False, Message m) \<Rightarrow> Inr (''Error: '' @ m, PList [])
      | (False, Fetched column_names data) \<Rightarrow>
          (case py_str w (PTuple [PList column_names, PList data]) of
             Inl e \<Rightarrow> Inl e
           | Inr s \<Rightarrow> Inr (''Error: '' @ s, PList [])))"

definition validate_and_fetch_schema :: "world \<Rightarrow> string \<Rightarrow> creds \<Rightarrow> string \<times> pyval" where
  "validate_and_fetch_schema w db_type creds =
     (case validate_and_fetch_schema_try w db_type creds of
        Inl e \<Rightarrow> (''Error: '' @ str_exn e, PList [])
      | Inr r \<Rightarrow> r)"

section \<open>main.py: POST /validate\<close>

text \<open>
  \<^verbatim>\<open>
  def validate_connection(db_creds: DatabaseCredentials):
      try:
          status, preview = validate_and_fetch_schema(db_creds.db_type, db_creds.credentials)
          if isinstance(preview, list):
              try:
                  preview = json.loads(json.dumps(preview, default=str))
              except:
                  preview = str(preview)
          return {
              "success": not status.startswith("Error"),
              "message": status,
              "preview": preview
          }
      except Exception as e:
          raise HTTPException(status_code=500, detail=f"Validation error: {str(e)}")
  \<close>
\<close>

record DatabaseCredentials =
  db_type :: string
  credentials :: creds

record ValidationResponse =
  success :: bool
  message :: string
  preview :: pyval

definition validate_connection ::
  "world \<Rightarrow> DatabaseCredentials \<Rightarrow> http_exception + ValidationResponse" where
  "validate_connection w db_creds =
     (case validate_and_fetch_schema w (db_type db_creds) (credentials db_creds) of
        (status, pv) \<Rightarrow>
          (case (case pv of
                   PList _ \<Rightarrow>
                     (case json_roundtrip w pv of
                        Inr v \<Rightarrow> Inr v
                      | Inl _ \<Rightarrow>
                          (case py_str w pv of Inl e \<Rightarrow> Inl e | Inr s \<Rightarrow> Inr (PStr s)))
                 | _ \<Rightarrow> Inr pv) of
             Inl e \<Rightarrow> Inl (HTTPException 500 (''Validation error: '' @ str_exn e))
           | Inr preview' \<Rightarrow>
               Inr \<lparr>success = \<not> prefix ''Error'' status,
                    message = status,
                    preview = preview'\<rparr>))"



section \<open>modules/generator.py: the LLM backend\<close>

text \<open>
  \<^verbatim>\<open>
  try:
      from langchain_google_genai import ChatGoogleGenerativeAI
      from langchain_core.messages import HumanMessage
      LANGCHAIN_AVAILABLE = True
  except ImportError:
      try:
          from langchain_openai import ChatOpenAI as LLMBackend
          from langchain_core.messages import HumanMessage
          LANGCHAIN_AVAILABLE = True
          USE_OPENAI = True
      except ImportError:
          LANGCHAIN_AVAILABLE = False
          USE_OPENAI = False
  \<close>
  The module's globals after this import block: the two flags (\<open>USE_OPENAI\<close> is unbound
  when the first \<open>try\<close> succeeds) and which of the imported names are bound. The
  arguments say which of the three packages can be imported.
\<close>

record generator_module =
  LANGCHAIN_AVAILABLE :: bool
  USE_OPENAI :: "bool option"
  bound_names :: "string list"

definition import_generator :: "bool \<Rightarrow> bool \<Rightarrow> bool \<Rightarrow> generator_module" where
  "import_generator google_genai langchain_core langchain_openai =
     (if google_genai \<and> langchain_core then
        \<lparr>LANGCHAIN_AVAILABLE = True, USE_OPENAI = None,
         bound_names = [''ChatGoogleGenerativeAI'', ''HumanMessage'']\<rparr>
      else
        (let names = (if google_genai then [''ChatGoogleGenerativeAI''] else [])
         in if langchain_openai \<and> langchain_core then
              \<lparr>LANGCHAIN_AVAILABLE = True, USE_OPENAI = Some True,
               bound_names = names @ [''LLMBackend'', ''HumanMessage'']\<rparr>
            else
              \<lparr>LANGCHAIN_AVAILABLE = False, USE_OPENAI = Some False,
               bound_names = names @ (if langchain_openai then [''LLMBackend''] else [])\<rparr>))"

text \<open>
  \<^verbatim>\<open>
  def get_llm():
      if not LANGCHAIN_AVAILABLE:
          raise ImportError("Neither langchain_google_genai nor langchain_openai is available. Please install one of them.")
      if 'USE_OPENAI' in locals() and USE_OPENAI:
          api_key = os.getenv("OPENAI_API_KEY")
          if not api_key:
              raise ValueError("OPENAI_API_KEY environment variable is required but not set")
          return LLMBackend(model="gpt-4", temperature=0)
      else:
          api_key = os.getenv("GOOGLE_API_KEY")
          if not api_key:
              raise ValueError("GOOGLE_API_KEY environment variable is required but not set")
          return ChatGoogleGenerativeAI(model="gemini-2.0-flash", temperature=0)
  \<close>
  \<open>locals()\<close> is the dictionary of the local variables of \<open>get_llm\<close> that hold a value.
  The function has one local variable, \<open>api_key\<close>, which holds none where \<open>locals()\<close> is
  called; \<open>USE_OPENAI\<close> is a global of the module.

  A name that is not bound raises \<open>NameError\<close> where it is used. The environment
  variables are a map; \<open>not api_key\<close> holds of a variable that is unset or empty.
\<close>

datatype llm = ChatOpenAI string int | ChatGoogleGenerativeAI string int

definition get_llm_locals :: "string list" where
  "get_llm_locals = []"

definition name_error :: "string \<Rightarrow> exn" where
  "name_error name = Exn NameError (''name '' @ [CHR 0x27] @ name @ [CHR 0x27] @ '' is not defined'')"

definition get_llm :: "generator_module \<Rightarrow> (string \<rightharpoonup> string) \<Rightarrow> exn + llm" where
  "get_llm m environ =
     (if \<not> LANGCHAIN_AVAILABLE m then
        Inl (Exn ImportError
          ''Neither langchain_google_genai nor langchain_openai is available. Please install one of them.'')
      else
        (case (if ''USE_OPENAI'' \<in> set get_llm_locals
               then (case USE_OPENAI m of None \<Rightarrow> Inl (name_error ''USE_OPENAI'') | Some b \<Rightarrow> Inr b)
               else Inr False) of
           Inl e \<Rightarrow> Inl e
         | Inr True \<Rightarrow>
             (if environ ''OPENAI_API_KEY'' = None \<or> environ ''OPENAI_API_KEY'' = Some ''''
              then Inl (Exn ValueError
                     ''OPENAI_API_KEY environment variable is required but not set'')
              else if ''LLMBackend'' \<in> set (bound_names m) then Inr (ChatOpenAI ''gpt-4'' 0)
              else Inl (name_error ''LLMBackend''))
         | Inr False \<Rightarrow>
             (if environ ''GOOGLE_API_KEY'' = None \<or> environ ''GOOGLE_API_KEY'' = Some ''''
              then Inl (Exn ValueError
                     ''GOOGLE_API_KEY environment variable is required but not set'')
              else if ''ChatGoogleGenerativeAI'' \<in> set (bound_names m)
              then Inr (ChatGoogleGenerativeAI ''gemini-2.0-flash'' 0)
              else Inl (name_error ''ChatGoogleGenerativeAI''))))"

text \<open>
  \<^verbatim>\<open>
  def generate_etl_code(source_type, source_creds, target_type, target_creds,
                        transformations, src_preview=None, tgt_preview=None):
      llm = get_llm()
      ... prompt = f'''...''' ...
      response = llm.invoke([HumanMessage(content=prompt)])
      return strip_code_block(response.content)
  \<close>
  The text of the prompt, which \<open>json.dumps\<close> builds from the request, and the answer of
  the model are given: \<open>prompt\<close> is what building the prompt comes to, \<open>invoke\<close> what the
  backend answers.
\<close>

definition generate_etl_code ::
  "generator_module \<Rightarrow> (string \<rightharpoonup> string) \<Rightarrow> exn + string \<Rightarrow> (llm \<Rightarrow> string \<Rightarrow> exn + string)
     \<Rightarrow> exn + string" where
  "generate_etl_code m environ prompt invoke =
     (case get_llm m environ of
        Inl e \<Rightarrow> Inl e
      | Inr llm \<Rightarrow>
          (case prompt of
             Inl e \<Rightarrow> Inl e
           | Inr p \<Rightarrow>
               (case invoke llm p of
                  Inl e \<Rightarrow> Inl e
                | Inr content \<Rightarrow> Inr (strip_code_block content))))"

text \<open>
  The errors the specification calls configuration errors: the \<open>ImportError\<close> for a
  missing provider and the \<open>ValueError\<close> for a missing key.
\<close>

definition is_configuration_error :: "exn \<Rightarrow> bool" where
  "is_configuration_error e = (case e of Exn c _ \<Rightarrow> c = ImportError \<or> c = ValueError)"

section \<open>What the claims take from the drivers and from pandas\<close>



text \<open>
  The default the code puts in the place of an absent credential field: the standard port
  of the database for \<open>port\<close>, the empty string for every other field.
\<close>

definition field_default :: "string \<Rightarrow> string \<Rightarrow> pyval" where
  "field_default kind field =
     (if field = ''port'' then
        (if kind = ''PostgreSQL'' then PStr ''5432''
         else if kind = ''MySQL'' then PStr ''3306''
         else if kind = ''MSSQL'' then PStr ''1433''
         else PStr '''')
      else PStr '''')"

section \<open>Example worlds\<close>

text \<open>
  The end-to-end scenario of the specification: the file \<open>t.db\<close> holds the table
  \<open>users(id, name)\<close> with one row. The other databases refuse the connection, \<open>int\<close>
  reads the text \<open>3306\<close>, and pandas gives one mapping for each row: the column names
  paired with the cells of a tuple, a document as it is.
\<close>

definition users_db :: sqlite_connection where
  "users_db statement =
     (if statement = ''SELECT * FROM users LIMIT 2;'' then Inr [[PInt 1, PStr ''alice'']]
      else if statement = ''PRAGMA table_info(users);'' then
        Inr [[PInt 0, PStr ''id'', PStr ''INTEGER'', PInt 0, PNone, PInt 1],
             [PInt 1, PStr ''name'', PStr ''TEXT'', PInt 0, PNone, PInt 0]]
      else Inl (Exn OtherError ''no such table''))"

definition empty_table :: dbapi_connection where
  "empty_table statement = Inr ([PStr ''id''], [])"

fun label :: "pyval \<Rightarrow> string" where
  "label (PStr s) = s"
| "label v = ''''"

fun row_record :: "pyval list \<Rightarrow> pyval \<Rightarrow> pyval" where
  "row_record columns (PTuple cells) = PDict (zip (map label columns) cells)"
| "row_record columns (PDict items) = PDict items"
| "row_record columns v = PDict []"

fun example_records :: "pyval option \<Rightarrow> pyval list option \<Rightarrow> exn + pyval list" where
  "example_records (Some (PList rows)) (Some columns) = Inr (map (row_record columns) rows)"
| "example_records (Some (PList rows)) None = Inr (map (row_record []) rows)"
| "example_records data columns = Inr []"

definition example_world :: world where
  "example_world =
     \<lparr>py_int = (\<lambda>v. if v = PStr ''3306'' then Inr 3306
                     else Inl (Exn ValueError ''invalid literal for int() with base 10'')),
      py_str_other = (\<lambda>v. Inl (Exn TypeError ''unsupported format string'')),
      psycopg2_connect = (\<lambda>host port user password database.
         Inl (Exn OtherError ''connection refused'')),
      pymysql_connect = (\<lambda>host port user password database. Inr empty_table),
      pyodbc_connect = (\<lambda>connection_string. Inr empty_table),
      sqlite3_connect = (\<lambda>file_path.
         if file_path = PStr ''t.db'' then Inr users_db
         else Inl (Exn OtherError ''unable to open database file'')),
      pymongo_find = (\<lambda>uri database collection. Inl (Exn OtherError ''connection refused'')),
      json_roundtrip = (\<lambda>v. Inr v),
      DataFrame_records = example_records\<rparr>"

definition users_request :: DatabaseCredentials where
  "users_request =
     \<lparr>db_type = ''SQLite'',
      credentials = [''file_path'' \<mapsto> PStr ''t.db'', ''table'' \<mapsto> PStr ''users'']\<rparr>"

text \<open>Credentials for a MySQL server on its standard port, without port and password.\<close>

definition shop_credentials :: creds where
  "shop_credentials =
     [''host'' \<mapsto> PStr ''localhost'', ''user'' \<mapsto> PStr ''root'',
      ''database'' \<mapsto> PStr ''shop'', ''table'' \<mapsto> PStr ''orders'']"

text \<open>A child process that prints the word \<open>Error\<close> on its standard output only.\<close>

definition child_printing_error :: child_process where
  "child_printing_error code = Inr (''Error: nothing to do'', '''')"

text \<open>
  A child process whose standard error holds the numpy warning on two lines and one line
  of its own.
\<close>

definition warning_stderr :: string where
  "warning_stderr =
     ''/lib/numpy/_core/getlimits.py:551: UserWarning'' @ [CHR 0x0A]
     @ ''loaded 3 rows'' @ [CHR 0x0A]
     @ ''  numpy/_core/getlimits.py again'' @ [CHR 0x0A]"

definition child_with_warning :: child_process where
  "child_with_warning code = Inr (''done'' @ [CHR 0x0A], warning_stderr)"

section \<open>strip_code_block: fences\<close>

lemma prefix_python_fence: "prefix ''```python'' x \<Longrightarrow> prefix ''```'' x"
  by (auto simp: prefix_def)

lemma suffix_lstrip_drop: "suffix f (lstrip (drop n x)) \<Longrightarrow> suffix f x"
  unfolding lstrip_def
  by (meson suffix_drop suffix_dropWhile suffix_order.trans)

lemma length_rstrip_le: "length (rstrip s) \<le> length s"
  unfolding rstrip_def using length_dropWhile_le [of is_space "rev s"] by simp

lemma length_lstrip_le: "length (lstrip s) \<le> length s"
  unfolding lstrip_def by (rule length_dropWhile_le)

lemma strip_code_block_clean:
  assumes "\<not> prefix ''```'' x" "\<not> suffix ''```'' x"
  shows "strip_code_block x = x"
  using assms prefix_python_fence by (auto simp: strip_code_block_def)

lemma strip_code_block_trailing_only:
  assumes "suffix ''```'' x" "\<not> prefix ''```'' x"
  shows "strip_code_block x = rstrip (take (length x - 3) x) \<and> strip_code_block x \<noteq> x"
proof -
  have np: "\<not> prefix ''```python'' x" using assms(2) prefix_python_fence by blast
  have e: "strip_code_block x = rstrip (take (length x - 3) x)"
    using assms np by (simp add: strip_code_block_def)
  have "3 \<le> length x" using assms(1) by (auto simp: suffix_def)
  moreover have "length (rstrip (take (length x - 3) x)) \<le> length x - 3"
    using length_rstrip_le [of "take (length x - 3) x"] by simp
  ultimately have "length (strip_code_block x) < length x" using e by simp
  then have "strip_code_block x \<noteq> x" by auto
  with e show ?thesis by simp
qed

lemma strip_code_block_leading_only:
  assumes "prefix ''```'' x" "\<not> suffix ''```'' x"
  shows "strip_code_block x = lstrip (drop (if prefix ''```python'' x then 9 else 3) x)
         \<and> strip_code_block x \<noteq> x"
proof -
  let ?n = "if prefix ''```python'' x then 9 else 3 :: nat"
  have ns: "\<not> suffix ''```'' (lstrip (drop n x))" for n
    using assms(2) suffix_lstrip_drop by blast
  have l9: "length ''```python'' = 9" and l3: "length ''```'' = 3" by simp_all
  have e: "strip_code_block x = lstrip (drop ?n x)"
    unfolding strip_code_block_def Let_def l9 l3 using assms(1) ns by simp
  have "3 \<le> length x" using assms(1) by (auto simp: prefix_def)
  moreover have "9 \<le> length x" if "prefix ''```python'' x"
    using that by (auto simp: prefix_def)
  moreover have "length (lstrip (drop ?n x)) \<le> length x - ?n"
    using length_lstrip_le [of "drop ?n x"] by simp
  ultimately have "length (strip_code_block x) < length x" using e by (auto split: if_splits)
  then have "strip_code_block x \<noteq> x" by auto
  with e show ?thesis by simp
qed

lemma not_space_backtick: "\<not> is_space CHR 0x60"
  by (simp add: is_space_def)

lemma lstrip_append_fence: "lstrip (m @ ''```'') = lstrip m @ ''```''"
  unfolding lstrip_def by (induction m) (simp_all add: not_space_backtick)

text \<open>A text made of a leading fence, a middle and a trailing fence comes to the middle, trimmed.\<close>

lemma strip_code_block_between:
  assumes "x = F @ m @ ''```''" "length F = n"
    "(if prefix ''```python'' x then length ''```python'' else length ''```'') = n"
    "prefix ''```'' x"
  shows "strip_code_block x = strip m \<and> spec_without_both_fences x = strip m"
proof -
  have d: "drop n x = m @ ''```''" using assms(1,2) by simp
  have t: "take (length x - n - 3) (drop n x) = m" using assms(1,2) by simp
  have s: "spec_without_both_fences x = strip m"
    unfolding spec_without_both_fences_def Let_def assms(3) t ..
  have lead: "(if prefix ''```python'' x then lstrip (drop (length ''```python'') x)
                  else if prefix ''```'' x then lstrip (drop (length ''```'') x)
                  else x) = lstrip m @ ''```''"
    using assms(3,4) d lstrip_append_fence by (auto split: if_splits)
  have sf: "suffix ''```'' (lstrip m @ ''```'')" by (simp add: suffix_def)
  have "strip_code_block x = rstrip (lstrip m)"
    unfolding strip_code_block_def lead Let_def using sf by simp
  with s show ?thesis by (simp add: strip_def)
qed

text \<open>Short texts: where the two fences would overlap.\<close>

lemma no_short_python_fenced:
  assumes "prefix ''```python'' x" "suffix ''```'' x" "length x < 12"
  shows False
proof -
  obtain r where x: "x = ''```python'' @ r" using assms(1) by (auto simp: prefix_def)
  with assms(3) have "length r < 3" by simp
  then consider "r = []" | a where "r = [a]" | a b where "r = [a, b]"
    by (cases r; cases "tl r"; cases "tl (tl r)") auto
  then show False using assms(2) x by cases (auto simp: suffix_to_prefix)
qed

lemma short_fenced:
  assumes "prefix ''```'' x" "suffix ''```'' x" "length x < 6"
  shows "x = ''```'' \<or> x = ''````'' \<or> x = ''`````''"
proof -
  obtain r where x: "x = ''```'' @ r" using assms(1) by (auto simp: prefix_def)
  with assms(3) have "length r < 3" by simp
  then consider "r = []" | a where "r = [a]" | a b where "r = [a, b]"
    by (cases r; cases "tl r"; cases "tl (tl r)") auto
  then show ?thesis using assms(2) x by cases (auto simp: suffix_to_prefix)
qed

lemma strip_code_block_both:
  assumes "prefix ''```'' x" "suffix ''```'' x" "x \<noteq> ''````''" "x \<noteq> ''`````''"
  shows "strip_code_block x = spec_without_both_fences x"
proof -
  define n where "n = (if prefix ''```python'' x then length ''```python'' else length ''```'')"
  show ?thesis
  proof (cases "n + 3 \<le> length x")
    case True
    define m where "m = take (length x - n - 3) (drop n x)"
    have "suffix ''```'' (drop n x)"
      using assms(2) True by (auto simp: suffix_def)
    then obtain zs where zs: "drop n x = zs @ ''```''" by (auto simp: suffix_def)
    have "length (drop n x) = length (zs @ ''```'')" by (simp only: zs)
    then have "length x - n - 3 = length zs" by simp
    then have "m = zs" unfolding m_def zs by simp
    with zs have dm: "drop n x = m @ ''```''" by simp
    have "take n x @ m @ ''```'' = x" using append_take_drop_id [of n x] dm by simp
    then have xeq: "x = take n x @ m @ ''```''" by (rule sym)
    have ln: "length (take n x) = n" using True by simp
    have c: "(if prefix ''```python'' x then length ''```python'' else length ''```'') = n"
      by (simp only: n_def)
    from strip_code_block_between [OF xeq ln c assms(1)] show ?thesis by simp
  next
    case False
    show ?thesis
    proof (cases "prefix ''```python'' x")
      case True
      with False assms(2) no_short_python_fenced [of x] show ?thesis by (simp add: n_def)
    next
      case np: False
      with False have "length x < 6" by (simp add: n_def)
      with short_fenced [OF assms(1,2)] assms(3,4) have x3: "x = ''```''" by blast
      show ?thesis unfolding x3 by code_simp
    qed
  qed
qed

text \<open>
  Claim C4, as amended. On a text that neither starts with a fence nor ends with \<open>```\<close>,
  \<open>strip_code_block\<close> changes nothing, so applying it twice gives what applying it once
  gives. On a text \<open>y\<close> that starts with a fence and ends with \<open>```\<close>, it removes one leading
  fence and one trailing fence, with the whitespace next to them, and no more than one of
  each; the two texts of four and of five backticks are left out, where the leading fence
  and the trailing one overlap.
\<close>

theorem strip_code_block_fences:
  "(\<not> prefix ''```'' x \<and> \<not> suffix ''```'' x
      \<longrightarrow> strip_code_block x = x \<and> strip_code_block (strip_code_block x) = strip_code_block x)
   \<and> (prefix ''```'' y \<and> suffix ''```'' y \<and> y \<noteq> ''````'' \<and> y \<noteq> ''`````''
      \<longrightarrow> strip_code_block y = spec_without_both_fences y)"
  using strip_code_block_clean [of x] strip_code_block_both [of y] by simp

theorem strip_code_block_fences_witness:
  "\<not> prefix ''```'' ''x = 1'' \<and> \<not> suffix ''```'' ''x = 1''
   \<and> strip_code_block ''x = 1'' = ''x = 1''
   \<and> strip_code_block (strip_code_block ''x = 1'') = strip_code_block ''x = 1''
   \<and> prefix ''```'' (''```python'' @ [CHR 0x0A] @ ''x = 1'' @ [CHR 0x0A] @ ''```'')
   \<and> suffix ''```'' (''```python'' @ [CHR 0x0A] @ ''x = 1'' @ [CHR 0x0A] @ ''```'')
   \<and> strip_code_block (''```python'' @ [CHR 0x0A] @ ''x = 1'' @ [CHR 0x0A] @ ''```'') = ''x = 1''"
  using strip_code_block_fences
    [of "''x = 1''" "''```python'' @ [CHR 0x0A] @ ''x = 1'' @ [CHR 0x0A] @ ''```''"]
  by (simp add: suffix_to_prefix spec_without_both_fences_def strip_def lstrip_def rstrip_def
      is_space_def)

text \<open>
  Claim C4 as it is stated fails on the text of four backticks: it starts with \<open>```\<close> and
  ends with \<open>```\<close>, and the code returns one backtick, the text less its leading fence
  only. Less one fence at each end, nothing would be left.
\<close>

theorem strip_code_block_overlap_counterexample:
  "prefix ''```'' ''````'' \<and> suffix ''```'' ''````''
   \<and> strip_code_block ''````'' = ''`''
   \<and> spec_without_both_fences ''````'' = ''''
   \<and> strip_code_block ''````'' \<noteq> spec_without_both_fences ''````''"
  by (simp add: suffix_to_prefix strip_code_block_def spec_without_both_fences_def strip_def
      lstrip_def rstrip_def is_space_def Let_def)

text \<open>
  Claim C10. A text \<open>x\<close> that ends with \<open>```\<close> and does not start with a fence loses its
  last three characters and is then stripped on the right. A text \<open>y\<close> that starts with a
  fence and does not end with \<open>```\<close> loses the fence (\<open>```python\<close>, nine characters, where
  it starts with that, \<open>```\<close> otherwise) and is then stripped on the left. In both cases
  the result differs from the input.
\<close>

theorem strip_code_block_one_sided:
  "(suffix ''```'' x \<and> \<not> prefix ''```'' x
      \<longrightarrow> strip_code_block x = rstrip (take (length x - 3) x) \<and> strip_code_block x \<noteq> x)
   \<and> (prefix ''```'' y \<and> \<not> suffix ''```'' y
      \<longrightarrow> strip_code_block y = lstrip (drop (if prefix ''```python'' y then 9 else 3) y)
          \<and> strip_code_block y \<noteq> y)"
  using strip_code_block_trailing_only [of x] strip_code_block_leading_only [of y] by blast

theorem strip_code_block_one_sided_witness:
  "suffix ''```'' (''x = 1'' @ [CHR 0x0A] @ ''```'')
   \<and> \<not> prefix ''```'' (''x = 1'' @ [CHR 0x0A] @ ''```'')
   \<and> strip_code_block (''x = 1'' @ [CHR 0x0A] @ ''```'') = ''x = 1''
   \<and> prefix ''```'' (''```python'' @ [CHR 0x0A] @ ''x = 1'')
   \<and> \<not> suffix ''```'' (''```python'' @ [CHR 0x0A] @ ''x = 1'')
   \<and> strip_code_block (''```python'' @ [CHR 0x0A] @ ''x = 1'') = ''x = 1''"
  using strip_code_block_one_sided
    [of "''x = 1'' @ [CHR 0x0A] @ ''```''" "''```python'' @ [CHR 0x0A] @ ''x = 1''"]
  by (simp add: suffix_to_prefix lstrip_def rstrip_def is_space_def)

section \<open>run_etl_script and POST /execute-code\<close>

lemma sublist_map_iff: "sublist ys (map f xs) \<longleftrightarrow> (\<exists>w. sublist w xs \<and> map f w = ys)"
  unfolding sublist_def
  by (auto simp: map_eq_append_conv append_eq_map_conv) blast+

lemma lower_error: "lower ''error'' = ''error''"
  by (simp add: lower_def lower_char_def)

lemma contains_ignoring_case_error:
  "contains_ignoring_case ''error'' text \<longleftrightarrow> sublist ''error'' (lower text)"
  unfolding contains_ignoring_case_def lower_error
  unfolding lower_def by (simp only: sublist_map_iff)

text \<open>
  Claim C1. Whatever the child process does, the handler returns a response; its stdout
  and stderr are those of \<open>run_etl_script\<close>, and its success flag is true exactly when
  that stderr is empty or does not hold \<open>error\<close> compared without regard to case. The
  flag is a function of stderr alone: stdout does not enter it.
\<close>

theorem execute_code_success:
  "\<exists>r. execute_code run_child code = Inr r
     \<and> stdout r = fst (run_etl_script run_child code)
     \<and> stderr r = snd (run_etl_script run_child code)
     \<and> (ExecutionResponse.success r
          \<longleftrightarrow> stderr r = [] \<or> \<not> contains_ignoring_case ''error'' (stderr r))"
  by (simp add: execute_code_def contains_ignoring_case_error split: prod.splits)

theorem execute_code_success_witness:
  "\<exists>r. execute_code child_printing_error ''print(1)'' = Inr r
     \<and> stdout r = ''Error: nothing to do'' \<and> stderr r = [] \<and> ExecutionResponse.success r"
  using execute_code_success [of child_printing_error "''print(1)''"]
  by (auto simp: run_etl_script_def child_printing_error_def strip_def lstrip_def rstrip_def
      is_space_def splitlines_def Let_def)

text \<open>
  When writing the file or starting the child process raises, the message put in the
  place of stderr holds the word \<open>Error\<close>, so the response reports a failure.
\<close>

lemma sublist_error_message:
  "sublist ''error'' (lower (cross_mark @ '' Error running script: '' @ m))"
proof -
  have l: "lower '' Error running script: '' = '' '' @ ''error'' @ '' running script: ''"
    by code_simp
  have "lower (cross_mark @ '' Error running script: '' @ m)
          = lower cross_mark @ lower '' Error running script: '' @ lower m"
    by (simp add: lower_def)
  then have "lower (cross_mark @ '' Error running script: '' @ m)
          = (lower cross_mark @ '' '') @ ''error'' @ ('' running script: '' @ lower m)"
    by (simp only: l append_assoc)
  then show ?thesis by (simp only: sublist_appendI)
qed

lemma execute_code_spawn_failure:
  assumes "run_child code = Inl e"
  shows "\<exists>r. execute_code run_child code = Inr r \<and> \<not> ExecutionResponse.success r
           \<and> stdout r = '''' \<and> stderr r = cross_mark @ '' Error running script: '' @ str_exn e"
  using assms sublist_error_message [of "str_exn e"]
  by (simp add: execute_code_def run_etl_script_def cross_mark_def)

text \<open>A word that does not hold the separator lies inside one of the joined lines.\<close>

lemma sublist_join:
  assumes "sep \<notin> set m" "m \<noteq> []"
  shows "sublist m (join [sep] ls) \<Longrightarrow> \<exists>l\<in>set ls. sublist m l"
proof (induction "[sep]" ls rule: join.induct)
  case 1
  then show ?case using assms(2) by simp
next
  case (2 l)
  then show ?case by simp
next
  case (3 l k ls)
  let ?rest = "join [sep] (k # ls)"
  from 3(2) have "sublist m (l @ (sep # ?rest))" by simp
  then consider "sublist m l" | "sublist m (sep # ?rest)"
    | m1 m2 where "m = m1 @ m2" "suffix m1 l" "prefix m2 (sep # ?rest)"
    unfolding sublist_append by blast
  then show ?case
  proof cases
    case 1
    then show ?thesis by auto
  next
    case 2
    then have "prefix m (sep # ?rest) \<or> sublist m ?rest" by (simp add: sublist_Cons_right)
    moreover have "\<not> prefix m (sep # ?rest)"
      using assms by (cases m) (auto simp: prefix_def)
    ultimately show ?thesis using 3(1) by auto
  next
    case 3
    show ?thesis
    proof (cases m2)
      case Nil
      with 3 have "suffix m l" by simp
      then show ?thesis by (auto dest: suffix_imp_sublist)
    next
      case (Cons c cs)
      with 3(3) have "c = sep" by (simp add: prefix_def)
      with Cons 3(1) assms(1) show ?thesis by simp
    qed
  qed
qed

lemma sublist_strip: "sublist (strip s) s"
proof -
  have "suffix (lstrip s) s" unfolding lstrip_def by (rule suffix_dropWhile)
  moreover have "prefix (rstrip t) t" for t
    unfolding rstrip_def using suffix_dropWhile [of is_space "rev t"]
    by (simp add: suffix_to_prefix)
  ultimately show ?thesis unfolding strip_def
    by (meson prefix_imp_sublist suffix_imp_sublist sublist_order.order_trans)
qed

text \<open>
  Claim C9. When the child process has run and its output \<open>(out, err)\<close> is captured, the
  returned stdout is \<open>out\<close> trimmed, and the returned stderr is the trimmed text of the
  kept lines joined by line feeds. The kept lines are the lines of \<open>err\<close> without those
  that hold the marker: they come in the order of \<open>err\<close>, each as it was, a line of \<open>err\<close>
  is kept exactly when it does not hold the marker, and the marker occurs nowhere in the
  returned stderr.
\<close>

theorem run_etl_script_filters_stderr:
  assumes "run_child code = Inr (out, err)"
  shows "\<exists>kept. run_etl_script run_child code = (strip out, strip (join [CHR 0x0A] kept))
           \<and> kept = filter (\<lambda>line. \<not> sublist ''numpy/_core/getlimits.py'' line) (splitlines err)
           \<and> subseq kept (splitlines err)
           \<and> (\<forall>line \<in> set (splitlines err).
                  line \<in> set kept \<longleftrightarrow> \<not> sublist ''numpy/_core/getlimits.py'' line)
           \<and> \<not> sublist ''numpy/_core/getlimits.py'' (snd (run_etl_script run_child code))"
proof -
  let ?m = "''numpy/_core/getlimits.py''"
  let ?kept = "filter (\<lambda>line. \<not> sublist ?m line) (splitlines err)"
  have r: "run_etl_script run_child code = (strip out, strip (join [CHR 0x0A] ?kept))"
    using assms by (simp add: run_etl_script_def)
  have nl: "CHR 0x0A \<notin> set ?m" by simp
  have "\<not> sublist ?m (join [CHR 0x0A] ?kept)"
  proof
    assume "sublist ?m (join [CHR 0x0A] ?kept)"
    from sublist_join [OF nl _ this] obtain l where "l \<in> set ?kept" "sublist ?m l" by blast
    then show False by simp
  qed
  then have "\<not> sublist ?m (strip (join [CHR 0x0A] ?kept))"
    using sublist_strip sublist_order.order_trans by blast
  with r show ?thesis by simp
qed

theorem run_etl_script_filters_stderr_witness:
  "child_with_warning ''import numpy'' = Inr (''done'' @ [CHR 0x0A], warning_stderr)
   \<and> run_etl_script child_with_warning ''import numpy'' = (''done'', ''loaded 3 rows'')
   \<and> splitlines warning_stderr =
       [''/lib/numpy/_core/getlimits.py:551: UserWarning'', ''loaded 3 rows'',
        ''  numpy/_core/getlimits.py again'']"
proof -
  have h: "child_with_warning ''import numpy'' = Inr (''done'' @ [CHR 0x0A], warning_stderr)"
    by (simp add: child_with_warning_def)
  have e1: "strip (''done'' @ [CHR 0x0A]) = ''done''"
    by code_simp
  have e2: "strip (join [CHR 0x0A]
              (filter (\<lambda>line. \<not> sublist ''numpy/_core/getlimits.py'' line)
                 (splitlines warning_stderr))) = ''loaded 3 rows''"
    by code_simp
  have e3: "splitlines warning_stderr =
       [''/lib/numpy/_core/getlimits.py:551: UserWarning'', ''loaded 3 rows'',
        ''  numpy/_core/getlimits.py again'']"
    by code_simp
  from run_etl_script_filters_stderr [of child_with_warning "''import numpy''", OF h] obtain kept where
    "run_etl_script child_with_warning ''import numpy''
       = (strip (''done'' @ [CHR 0x0A]), strip (join [CHR 0x0A] kept))"
    "kept = filter (\<lambda>line. \<not> sublist ''numpy/_core/getlimits.py'' line) (splitlines warning_stderr)"
    by blast
  then have "run_etl_script child_with_warning ''import numpy'' = (''done'', ''loaded 3 rows'')"
    using e1 e2 by simp
  with h e3 show ?thesis by simp
qed


section \<open>validate_and_fetch_schema and POST /validate\<close>

text \<open>
  Every branch of \<open>validate_db_connection\<close> that reports success returns the pair of
  column names and rows, and every failure carries a message. So \<open>validate_and_fetch_schema\<close>
  has two outcomes: an \<open>Error: ...\<close> status with the empty list, or the \<open>Connected\<close> status
  with the pair of the column names and the records pandas made.
\<close>

lemma success_fetched:
  "fst (validate_db_connection w dbt cr) = (True, r) \<Longrightarrow> \<exists>cols data. r = Fetched cols data"
  unfolding validate_db_connection_def validate_db_connection_try_def
  by (auto simp: branch_PostgreSQL_def branch_MySQL_def branch_MSSQL_def branch_MongoDB_def
      branch_SQLite_def sqlite_table_info_def select_on_def Let_def
      split: sum.splits prod.splits if_splits)

lemma failure_message:
  "fst (validate_db_connection w dbt cr) = (False, r) \<Longrightarrow> \<exists>m. r = Message m"
  unfolding validate_db_connection_def validate_db_connection_try_def
  by (auto simp: branch_PostgreSQL_def branch_MySQL_def branch_MSSQL_def branch_MongoDB_def
      branch_SQLite_def sqlite_table_info_def select_on_def Let_def
      split: sum.splits prod.splits if_splits)

lemma schema_cases:
  "(\<exists>m. validate_and_fetch_schema w dbt cr = (''Error: '' @ m, PList []))
   \<or> (\<exists>cols data recs. fst (validate_db_connection w dbt cr) = (True, Fetched cols data)
         \<and> preview_records w dbt cols data = Inr recs
         \<and> validate_and_fetch_schema w dbt cr
             = (''Connected to '' @ dbt @ '' successfully!'', PTuple [PList cols, PList recs]))"
proof (cases "fst (validate_db_connection w dbt cr)")
  case (Pair ok r)
  show ?thesis
  proof (cases ok)
    case True
    with Pair have "fst (validate_db_connection w dbt cr) = (True, r)" by simp
    from success_fetched [OF this] obtain cols data where r: "r = Fetched cols data" by blast
    show ?thesis
      using Pair True r
      by (cases "preview_records w dbt cols data")
         (simp_all add: validate_and_fetch_schema_def validate_and_fetch_schema_try_def)
  next
    case False
    with Pair have "fst (validate_db_connection w dbt cr) = (False, r)" by simp
    from failure_message [OF this] obtain m where r: "r = Message m" by blast
    show ?thesis using Pair False r
      by (simp add: validate_and_fetch_schema_def validate_and_fetch_schema_try_def)
  qed
qed

lemma not_error_connected: "\<not> prefix ''Error'' (''Connected to '' @ s)"
  by (simp add: prefix_def)

lemma error_prefix: "prefix ''Error'' (''Error: '' @ s)"
  by (simp add: prefix_def)

lemma users_schema:
  "validate_and_fetch_schema example_world ''SQLite'' (credentials users_request)
     = (''Connected to SQLite successfully!'',
        PTuple [PList [PStr ''id'', PStr ''name''],
                PList [PDict [(''id'', PInt 1), (''name'', PStr ''alice'')]]])"
  by code_simp


lemma schema_preview_list:
  "snd (validate_and_fetch_schema w dbt cr) = PList xs \<Longrightarrow> xs = []"
  using schema_cases [of w dbt cr] by auto

text \<open>
  Claim C2. The status of \<open>validate_and_fetch_schema\<close> starts with \<open>Error\<close> or is
  \<open>Connected to <db_type> successfully!\<close>. Every response of POST /validate has the
  status as its message and has its success flag true exactly when the status does not
  start with \<open>Error\<close>. The handler does return a response whenever \<open>json\<close> takes the
  empty list through its round trip.
\<close>

theorem validate_status_contract:
  "(prefix ''Error'' (fst (validate_and_fetch_schema w dbt cr))
      \<or> fst (validate_and_fetch_schema w dbt cr) = ''Connected to '' @ dbt @ '' successfully!'')
   \<and> (\<forall>r. validate_connection w \<lparr>db_type = dbt, credentials = cr\<rparr> = Inr r
          \<longrightarrow> (success r \<longleftrightarrow> \<not> prefix ''Error'' (fst (validate_and_fetch_schema w dbt cr)))
              \<and> message r = fst (validate_and_fetch_schema w dbt cr))
   \<and> ((\<exists>v. json_roundtrip w (PList []) = Inr v)
          \<longrightarrow> (\<exists>r. validate_connection w \<lparr>db_type = dbt, credentials = cr\<rparr> = Inr r))"
proof (intro conjI allI impI)
  show "prefix ''Error'' (fst (validate_and_fetch_schema w dbt cr))
      \<or> fst (validate_and_fetch_schema w dbt cr) = ''Connected to '' @ dbt @ '' successfully!''"
    using schema_cases [of w dbt cr] error_prefix by auto
next
  fix r
  assume a: "validate_connection w \<lparr>db_type = dbt, credentials = cr\<rparr> = Inr r"
  then show "success r \<longleftrightarrow> \<not> prefix ''Error'' (fst (validate_and_fetch_schema w dbt cr))"
    by (auto simp: validate_connection_def split: prod.splits sum.splits)
  from a show "message r = fst (validate_and_fetch_schema w dbt cr)"
    by (auto simp: validate_connection_def split: prod.splits sum.splits)
next
  assume "\<exists>v. json_roundtrip w (PList []) = Inr v"
  then obtain v where v: "json_roundtrip w (PList []) = Inr v" ..
  obtain status pv where s: "validate_and_fetch_schema w dbt cr = (status, pv)"
    by (cases "validate_and_fetch_schema w dbt cr")
  have "pv = PList [] \<or> (\<exists>a b. pv = PTuple [PList a, PList b])"
    using schema_cases [of w dbt cr] s by auto
  then show "\<exists>r. validate_connection w \<lparr>db_type = dbt, credentials = cr\<rparr> = Inr r"
    using s v by (auto simp: validate_connection_def)
qed

theorem validate_status_contract_witness:
  "fst (validate_and_fetch_schema example_world ''SQLite'' (credentials users_request))
     = ''Connected to SQLite successfully!''
   \<and> (\<exists>r. validate_connection example_world users_request = Inr r
          \<and> success r \<and> message r = ''Connected to SQLite successfully!'')"
proof -
  have u: "users_request = \<lparr>db_type = ''SQLite'', credentials = credentials users_request\<rparr>"
    by (simp add: users_request_def)
  have j: "\<exists>v. json_roundtrip example_world (PList []) = Inr v"
    by (simp add: example_world_def)
  have n: "\<not> prefix ''Error'' ''Connected to SQLite successfully!''"
    by (simp add: prefix_def)
  from validate_status_contract [of example_world "''SQLite''" "credentials users_request"] j u n
  show ?thesis by (auto simp: users_schema)
qed

text \<open>
  Claim C3. \<open>validate_and_fetch_schema\<close> returns a pair in every world: an exception \<open>e\<close>
  that leaves the \<open>try\<close> block of \<open>validate_db_connection\<close> (raised by a driver on
  connecting or querying, or by a conversion before it), and an exception \<open>e'\<close> that leaves
  the \<open>try\<close> block of \<open>validate_and_fetch_schema\<close> itself (raised by \<open>json\<close> or pandas),
  each become the status \<open>Error: \<close> followed by the text of the exception, with the
  empty list as preview.
\<close>

theorem validate_never_raises:
  "(fst (validate_db_connection_try w dbt cr) = Inl e
      \<longrightarrow> validate_and_fetch_schema w dbt cr = (''Error: '' @ str_exn e, PList []))
   \<and> (validate_and_fetch_schema_try w dbt cr = Inl e'
      \<longrightarrow> validate_and_fetch_schema w dbt cr = (''Error: '' @ str_exn e', PList []))"
  by (auto simp: validate_and_fetch_schema_def validate_and_fetch_schema_try_def
      validate_db_connection_def split: prod.splits)

theorem validate_never_raises_witness:
  "fst (validate_db_connection_try example_world ''SQLite'' Map.empty)
     = Inl (Exn OtherError ''unable to open database file'')
   \<and> validate_and_fetch_schema example_world ''SQLite'' Map.empty
     = (''Error: unable to open database file'', PList [])
   \<and> validate_and_fetch_schema_try
        (example_world\<lparr>DataFrame_records :=
           \<lambda>data columns. Inl (Exn ValueError ''2 columns passed, passed data had 1 columns'')\<rparr>)
        ''SQLite'' (credentials users_request)
     = Inl (Exn ValueError ''2 columns passed, passed data had 1 columns'')
   \<and> validate_and_fetch_schema
        (example_world\<lparr>DataFrame_records :=
           \<lambda>data columns. Inl (Exn ValueError ''2 columns passed, passed data had 1 columns'')\<rparr>)
        ''SQLite'' (credentials users_request)
     = (''Error: 2 columns passed, passed data had 1 columns'', PList [])"
proof -
  let ?w = "example_world\<lparr>DataFrame_records :=
           \<lambda>data columns. Inl (Exn ValueError ''2 columns passed, passed data had 1 columns'')\<rparr>"
  have a: "fst (validate_db_connection_try example_world ''SQLite'' Map.empty)
     = Inl (Exn OtherError ''unable to open database file'')"
    by code_simp
  have b: "validate_and_fetch_schema_try ?w ''SQLite'' (credentials users_request)
     = Inl (Exn ValueError ''2 columns passed, passed data had 1 columns'')"
    by code_simp
  from validate_never_raises [of example_world "''SQLite''" Map.empty
      "Exn OtherError ''unable to open database file''"] a
  have c: "validate_and_fetch_schema example_world ''SQLite'' Map.empty
     = (''Error: unable to open database file'', PList [])" by simp
  from validate_never_raises [of ?w "''SQLite''" "credentials users_request" _
      "Exn ValueError ''2 columns passed, passed data had 1 columns''"] b
  have d: "validate_and_fetch_schema ?w ''SQLite'' (credentials users_request)
     = (''Error: 2 columns passed, passed data had 1 columns'', PList [])" by simp
  from a b c d show ?thesis by simp
qed

text \<open>
  Claim C8. For a database type outside the five supported ones,
  \<open>validate_db_connection\<close> returns failure with the message
  \<open>Unsupported database type: <type>\<close> and has made no call to any driver;
  \<open>validate_and_fetch_schema\<close> hands that message on after \<open>Error: \<close>, with the empty
  list as preview.
\<close>

theorem unsupported_db_type:
  assumes "dbt \<notin> {''PostgreSQL'', ''MySQL'', ''MSSQL'', ''MongoDB'', ''SQLite''}"
  shows "validate_db_connection w dbt cr
           = ((False, Message (''Unsupported database type: '' @ dbt)), [])
         \<and> validate_and_fetch_schema w dbt cr
           = (''Error: Unsupported database type: '' @ dbt, PList [])"
  using assms
  by (simp add: validate_db_connection_def validate_db_connection_try_def
      validate_and_fetch_schema_def validate_and_fetch_schema_try_def)

theorem unsupported_db_type_witness:
  "validate_db_connection example_world ''Oracle'' Map.empty
     = ((False, Message ''Unsupported database type: Oracle''), [])
   \<and> validate_and_fetch_schema example_world ''Oracle'' Map.empty
     = (''Error: Unsupported database type: Oracle'', PList [])"
  using unsupported_db_type [of "''Oracle''" example_world Map.empty] by simp

















section \<open>Credentials and the calls to the drivers\<close>


lemma dict_get_absent: "cr k = None \<Longrightarrow> dict_get cr k d = d"
  by (simp add: dict_get_def)

lemma select_on_log:
  "\<exists>rest. snd (select_on w c a cr b log) = log @ rest"
  by (auto simp: select_on_def Let_def split: sum.splits prod.splits)

lemma log_PostgreSQL:
  "\<exists>rest. snd (validate_db_connection w ''PostgreSQL'' cr)
     = Psycopg2_connect (dict_get cr ''host'' (PStr '''')) (dict_get cr ''port'' (PStr ''5432''))
         (dict_get cr ''user'' (PStr '''')) (dict_get cr ''password'' (PStr ''''))
         (dict_get cr ''database'' (PStr '''')) # rest"
proof -
  let ?c = "Psycopg2_connect (dict_get cr ''host'' (PStr '''')) (dict_get cr ''port'' (PStr ''5432''))
         (dict_get cr ''user'' (PStr '''')) (dict_get cr ''password'' (PStr ''''))
         (dict_get cr ''database'' (PStr ''''))"
  have "\<exists>rest. snd (branch_PostgreSQL w cr) = ?c # rest"
    using select_on_log [of w _ "''SELECT * FROM ''" cr "'' LIMIT 2;''" "[?c]"]
    by (auto simp: branch_PostgreSQL_def Let_def split: sum.splits)
  then show ?thesis
    by (auto simp: validate_db_connection_def validate_db_connection_try_def split: prod.splits sum.splits)
qed

lemma log_MySQL:
  assumes "py_int w (dict_get cr ''port'' (PStr ''3306'')) = Inr p"
  shows "\<exists>rest. snd (validate_db_connection w ''MySQL'' cr)
     = Pymysql_connect (dict_get cr ''host'' (PStr '''')) p
         (dict_get cr ''user'' (PStr '''')) (dict_get cr ''password'' (PStr ''''))
         (dict_get cr ''database'' (PStr '''')) # rest"
proof -
  let ?c = "Pymysql_connect (dict_get cr ''host'' (PStr '''')) p
         (dict_get cr ''user'' (PStr '''')) (dict_get cr ''password'' (PStr ''''))
         (dict_get cr ''database'' (PStr ''''))"
  have "\<exists>rest. snd (branch_MySQL w cr) = ?c # rest"
    using assms select_on_log [of w _ "''SELECT * FROM ''" cr "'' LIMIT 2;''" "[?c]"]
    by (auto simp: branch_MySQL_def Let_def split: sum.splits)
  then show ?thesis
    by (auto simp: validate_db_connection_def validate_db_connection_try_def split: prod.splits sum.splits)
qed

lemma log_MSSQL:
  assumes "py_str w (dict_get cr ''host'' (PStr '''')) = Inr h"
    "py_str w (dict_get cr ''port'' (PStr ''1433'')) = Inr p"
    "py_str w (dict_get cr ''user'' (PStr '''')) = Inr u"
    "py_str w (dict_get cr ''password'' (PStr '''')) = Inr pw"
    "py_str w (dict_get cr ''database'' (PStr '''')) = Inr d"
  shows "\<exists>rest. snd (validate_db_connection w ''MSSQL'' cr)
     = Pyodbc_connect (''DRIVER={ODBC Driver 17 for SQL Server};SERVER='' @ h @ '';PORT='' @ p
          @ '';UID='' @ u @ '';PWD='' @ pw @ '';DATABASE='' @ d) # rest"
proof -
  let ?c = "Pyodbc_connect (''DRIVER={ODBC Driver 17 for SQL Server};SERVER='' @ h @ '';PORT='' @ p
          @ '';UID='' @ u @ '';PWD='' @ pw @ '';DATABASE='' @ d)"
  have "\<exists>rest. snd (branch_MSSQL w cr) = ?c # rest"
    using assms select_on_log [of w _ "''SELECT TOP 2 * FROM ''" cr "'';''" "[?c]"]
    by (auto simp: branch_MSSQL_def Let_def split: sum.splits)
  then show ?thesis
    by (auto simp: validate_db_connection_def validate_db_connection_try_def split: prod.splits sum.splits)
qed

lemma log_MongoDB:
  "snd (validate_db_connection w ''MongoDB'' cr)
     = [Pymongo_find (dict_get cr ''uri'' (PStr '''')) (dict_get cr ''database'' (PStr ''''))
          (dict_get cr ''collection'' (PStr ''''))]"
  by (auto simp: validate_db_connection_def validate_db_connection_try_def branch_MongoDB_def
      Let_def split: prod.splits sum.splits)

lemma log_SQLite:
  "\<exists>rest. snd (validate_db_connection w ''SQLite'' cr)
     = Sqlite3_connect (dict_get cr ''file_path'' (PStr '''')) # rest"
  by (auto simp: validate_db_connection_def validate_db_connection_try_def branch_SQLite_def
      sqlite_table_info_def Let_def split: prod.splits sum.splits)

lemma select_on_statement:
  "Execute s \<in> set (snd (select_on w c a cr b log)) \<Longrightarrow> Execute s \<notin> set log
   \<Longrightarrow> \<exists>t. py_str w (dict_get cr ''table'' (PStr '''')) = Inr t \<and> s = a @ t @ b"
  by (auto simp: select_on_def Let_def split: sum.splits prod.splits)

lemma log_statements:
  assumes "Execute s \<in> set (snd (validate_db_connection w dbt cr))"
  shows "\<exists>t. py_str w (dict_get cr ''table'' (PStr '''')) = Inr t
          \<and> (s = ''SELECT * FROM '' @ t @ '' LIMIT 2;''
              \<or> s = ''SELECT TOP 2 * FROM '' @ t @ '';''
              \<or> s = ''PRAGMA table_info('' @ t @ '');'')"
proof -
  have pg: "Execute s \<in> set (snd (branch_PostgreSQL w cr)) \<Longrightarrow> ?thesis"
    by (auto simp: branch_PostgreSQL_def Let_def split: sum.splits dest!: select_on_statement)
  have my: "Execute s \<in> set (snd (branch_MySQL w cr)) \<Longrightarrow> ?thesis"
    by (auto simp: branch_MySQL_def Let_def split: sum.splits dest!: select_on_statement)
  have ms: "Execute s \<in> set (snd (branch_MSSQL w cr)) \<Longrightarrow> ?thesis"
    by (auto simp: branch_MSSQL_def Let_def split: sum.splits dest!: select_on_statement)
  have mo: "Execute s \<in> set (snd (branch_MongoDB w cr)) \<Longrightarrow> ?thesis"
    by (auto simp: branch_MongoDB_def Let_def split: sum.splits)
  have sq: "Execute s \<in> set (snd (branch_SQLite w cr)) \<Longrightarrow> ?thesis"
    by (auto simp: branch_SQLite_def sqlite_table_info_def Let_def split: sum.splits)
  have "snd (validate_db_connection w dbt cr) = snd (validate_db_connection_try w dbt cr)"
    by (auto simp: validate_db_connection_def split: prod.splits sum.splits)
  with assms have "Execute s \<in> set (snd (validate_db_connection_try w dbt cr))" by simp
  then show ?thesis using pg my ms mo sq
    by (auto simp: validate_db_connection_try_def split: if_splits)
qed

text \<open>
  A request with an absent field is served as the request with the default of that field
  written out.
\<close>

lemma dict_get_written_out:
  assumes "cr k = None" "key = k \<longrightarrow> d = field_default dbt k"
  shows "dict_get (cr(k \<mapsto> field_default dbt k)) key d = dict_get cr key d"
  using assms by (auto simp: dict_get_def)

lemma dict_get_written_out_empty:
  assumes "cr k = None" "key \<noteq> ''port''"
  shows "dict_get (cr(k \<mapsto> field_default dbt k)) key (PStr '''') = dict_get cr key (PStr '''')"
  using assms by (intro dict_get_written_out) (auto simp: field_default_def)

lemma select_on_written_out:
  assumes "cr k = None"
  shows "select_on w c a (cr(k \<mapsto> field_default dbt k)) b log = select_on w c a cr b log"
  unfolding select_on_def
    dict_get_written_out_empty [where cr = cr and k = k and key = "''table''", OF assms, simplified]
  ..

lemma PostgreSQL_written_out:
  assumes "cr k = None"
  shows "branch_PostgreSQL w (cr(k \<mapsto> field_default ''PostgreSQL'' k)) = branch_PostgreSQL w cr"
proof -
  let ?cr = "cr(k \<mapsto> field_default ''PostgreSQL'' k)"
  have g: "dict_get ?cr ''host'' (PStr '''') = dict_get cr ''host'' (PStr '''')"
    "dict_get ?cr ''port'' (PStr ''5432'') = dict_get cr ''port'' (PStr ''5432'')"
    "dict_get ?cr ''user'' (PStr '''') = dict_get cr ''user'' (PStr '''')"
    "dict_get ?cr ''password'' (PStr '''') = dict_get cr ''password'' (PStr '''')"
    "dict_get ?cr ''database'' (PStr '''') = dict_get cr ''database'' (PStr '''')"
    using assms by (auto simp: dict_get_def field_default_def)
  show ?thesis
    unfolding branch_PostgreSQL_def g select_on_written_out [where cr = cr and k = k, OF assms] ..
qed

lemma MySQL_written_out:
  assumes "cr k = None"
  shows "branch_MySQL w (cr(k \<mapsto> field_default ''MySQL'' k)) = branch_MySQL w cr"
proof -
  let ?cr = "cr(k \<mapsto> field_default ''MySQL'' k)"
  have g: "dict_get ?cr ''host'' (PStr '''') = dict_get cr ''host'' (PStr '''')"
    "dict_get ?cr ''port'' (PStr ''3306'') = dict_get cr ''port'' (PStr ''3306'')"
    "dict_get ?cr ''user'' (PStr '''') = dict_get cr ''user'' (PStr '''')"
    "dict_get ?cr ''password'' (PStr '''') = dict_get cr ''password'' (PStr '''')"
    "dict_get ?cr ''database'' (PStr '''') = dict_get cr ''database'' (PStr '''')"
    using assms by (auto simp: dict_get_def field_default_def)
  show ?thesis
    unfolding branch_MySQL_def g select_on_written_out [where cr = cr and k = k, OF assms] ..
qed

lemma MSSQL_written_out:
  assumes "cr k = None"
  shows "branch_MSSQL w (cr(k \<mapsto> field_default ''MSSQL'' k)) = branch_MSSQL w cr"
proof -
  let ?cr = "cr(k \<mapsto> field_default ''MSSQL'' k)"
  have g: "dict_get ?cr ''host'' (PStr '''') = dict_get cr ''host'' (PStr '''')"
    "dict_get ?cr ''port'' (PStr ''1433'') = dict_get cr ''port'' (PStr ''1433'')"
    "dict_get ?cr ''user'' (PStr '''') = dict_get cr ''user'' (PStr '''')"
    "dict_get ?cr ''password'' (PStr '''') = dict_get cr ''password'' (PStr '''')"
    "dict_get ?cr ''database'' (PStr '''') = dict_get cr ''database'' (PStr '''')"
    using assms by (auto simp: dict_get_def field_default_def)
  show ?thesis
    unfolding branch_MSSQL_def g select_on_written_out [where cr = cr and k = k, OF assms] ..
qed

lemma MongoDB_written_out:
  assumes "cr k = None"
  shows "branch_MongoDB w (cr(k \<mapsto> field_default ''MongoDB'' k)) = branch_MongoDB w cr"
proof -
  let ?cr = "cr(k \<mapsto> field_default ''MongoDB'' k)"
  have g: "dict_get ?cr ''uri'' (PStr '''') = dict_get cr ''uri'' (PStr '''')"
    "dict_get ?cr ''database'' (PStr '''') = dict_get cr ''database'' (PStr '''')"
    "dict_get ?cr ''collection'' (PStr '''') = dict_get cr ''collection'' (PStr '''')"
    using assms by (auto simp: dict_get_def field_default_def)
  show ?thesis unfolding branch_MongoDB_def g ..
qed

lemma SQLite_written_out:
  assumes "cr k = None"
  shows "branch_SQLite w (cr(k \<mapsto> field_default ''SQLite'' k)) = branch_SQLite w cr"
proof -
  let ?cr = "cr(k \<mapsto> field_default ''SQLite'' k)"
  have g: "dict_get ?cr ''file_path'' (PStr '''') = dict_get cr ''file_path'' (PStr '''')"
    "dict_get ?cr ''table'' (PStr '''') = dict_get cr ''table'' (PStr '''')"
    using assms by (auto simp: dict_get_def field_default_def)
  show ?thesis unfolding branch_SQLite_def g ..
qed

lemma default_written_out:
  assumes "cr k = None"
  shows "validate_db_connection w dbt (cr(k \<mapsto> field_default dbt k))
           = validate_db_connection w dbt cr"
proof -
  have "validate_db_connection_try w dbt (cr(k \<mapsto> field_default dbt k))
          = validate_db_connection_try w dbt cr"
    unfolding validate_db_connection_try_def
    using PostgreSQL_written_out [where cr = cr and k = k, OF assms]
      MySQL_written_out [where cr = cr and k = k, OF assms]
      MSSQL_written_out [where cr = cr and k = k, OF assms]
      MongoDB_written_out [where cr = cr and k = k, OF assms]
      SQLite_written_out [where cr = cr and k = k, OF assms]
    by simp
  then show ?thesis by (simp add: validate_db_connection_def)
qed

lemma schema_written_out:
  assumes "cr k = None"
  shows "validate_and_fetch_schema w dbt (cr(k \<mapsto> field_default dbt k))
           = validate_and_fetch_schema w dbt cr"
  unfolding validate_and_fetch_schema_def validate_and_fetch_schema_try_def
    default_written_out [where cr = cr and k = k, OF assms] ..

text \<open>
  Claim C6, as amended. For each supported database type the connection is asked for
  with \<open>creds.get(field, default)\<close> in the place of every field, so an absent field is
  replaced by its default: the empty string for host, user, password, database, uri,
  collection, file_path and table, and the standard port of the database for the port
  (\<open>'5432'\<close> for PostgreSQL, \<open>int('3306')\<close> for MySQL, \<open>'1433'\<close> for MSSQL). For MySQL the
  connection is asked for once \<open>int\<close> has read the port, for MSSQL once the five values
  are put into the connection string. Every statement sent holds the text of the table
  field, empty when the field is absent. The calls, the result and the status are those
  of the same request with the default written out in the place of the absent field: the
  code reports no error of its own for the absence, and whether an error comes of it is
  decided by the driver.
\<close>

theorem absent_credentials_defaults:
  "(\<exists>rest. snd (validate_db_connection w ''PostgreSQL'' cr)
       = Psycopg2_connect (dict_get cr ''host'' (PStr '''')) (dict_get cr ''port'' (PStr ''5432''))
           (dict_get cr ''user'' (PStr '''')) (dict_get cr ''password'' (PStr ''''))
           (dict_get cr ''database'' (PStr '''')) # rest)
   \<and> (py_int w (dict_get cr ''port'' (PStr ''3306'')) = Inr n
        \<longrightarrow> (\<exists>rest. snd (validate_db_connection w ''MySQL'' cr)
              = Pymysql_connect (dict_get cr ''host'' (PStr '''')) n
                  (dict_get cr ''user'' (PStr '''')) (dict_get cr ''password'' (PStr ''''))
                  (dict_get cr ''database'' (PStr '''')) # rest))
   \<and> (py_str w (dict_get cr ''host'' (PStr '''')) = Inr h
        \<and> py_str w (dict_get cr ''port'' (PStr ''1433'')) = Inr p
        \<and> py_str w (dict_get cr ''user'' (PStr '''')) = Inr u
        \<and> py_str w (dict_get cr ''password'' (PStr '''')) = Inr pw
        \<and> py_str w (dict_get cr ''database'' (PStr '''')) = Inr db
        \<longrightarrow> (\<exists>rest. snd (validate_db_connection w ''MSSQL'' cr)
              = Pyodbc_connect (''DRIVER={ODBC Driver 17 for SQL Server};SERVER='' @ h
                  @ '';PORT='' @ p @ '';UID='' @ u @ '';PWD='' @ pw @ '';DATABASE='' @ db) # rest))
   \<and> snd (validate_db_connection w ''MongoDB'' cr)
       = [Pymongo_find (dict_get cr ''uri'' (PStr '''')) (dict_get cr ''database'' (PStr ''''))
            (dict_get cr ''collection'' (PStr ''''))]
   \<and> (\<exists>rest. snd (validate_db_connection w ''SQLite'' cr)
       = Sqlite3_connect (dict_get cr ''file_path'' (PStr '''')) # rest)
   \<and> (Execute s \<in> set (snd (validate_db_connection w dbt cr))
        \<longrightarrow> (\<exists>t. py_str w (dict_get cr ''table'' (PStr '''')) = Inr t
              \<and> (s = ''SELECT * FROM '' @ t @ '' LIMIT 2;''
                  \<or> s = ''SELECT TOP 2 * FROM '' @ t @ '';''
                  \<or> s = ''PRAGMA table_info('' @ t @ '');'')))
   \<and> (cr k = None \<longrightarrow> dict_get cr k dflt = dflt)
   \<and> py_str w (PStr '''') = Inr ''''
   \<and> (cr k = None
        \<longrightarrow> validate_db_connection w dbt (cr(k \<mapsto> field_default dbt k))
              = validate_db_connection w dbt cr
            \<and> validate_and_fetch_schema w dbt (cr(k \<mapsto> field_default dbt k))
              = validate_and_fetch_schema w dbt cr)"
  using log_PostgreSQL [of w cr] log_MySQL [of w cr n] log_MSSQL [of w cr h p u pw db]
    log_MongoDB [of w cr] log_SQLite [of w cr] log_statements [of s w dbt cr]
    dict_get_absent [of cr k dflt]
    default_written_out [where cr = cr and k = k and w = w and dbt = dbt]
    schema_written_out [where cr = cr and k = k and w = w and dbt = dbt]
  by (simp add: py_str_def)

theorem absent_credentials_defaults_witness:
  "(\<exists>rest. snd (validate_db_connection example_world ''MySQL'' Map.empty)
       = Pymysql_connect (PStr '''') 3306 (PStr '''') (PStr '''') (PStr '''') # rest)
   \<and> (\<exists>rest. snd (validate_db_connection example_world ''MSSQL'' Map.empty)
       = Pyodbc_connect
           ''DRIVER={ODBC Driver 17 for SQL Server};SERVER=;PORT=1433;UID=;PWD=;DATABASE=''
         # rest)
   \<and> Execute ''SELECT * FROM  LIMIT 2;''
       \<in> set (snd (validate_db_connection example_world ''MySQL'' Map.empty))
   \<and> py_str example_world (dict_get Map.empty ''table'' (PStr '''')) = Inr ''''
   \<and> dict_get Map.empty ''port'' (PStr ''3306'') = PStr ''3306''
   \<and> validate_db_connection example_world ''MySQL'' [''port'' \<mapsto> PStr ''3306'']
       = validate_db_connection example_world ''MySQL'' Map.empty
   \<and> validate_and_fetch_schema example_world ''MySQL'' [''port'' \<mapsto> PStr ''3306'']
       = validate_and_fetch_schema example_world ''MySQL'' Map.empty"
proof -
  have e: "Execute ''SELECT * FROM  LIMIT 2;''
       \<in> set (snd (validate_db_connection example_world ''MySQL'' Map.empty))"
    by code_simp
  have i: "py_int example_world (dict_get Map.empty ''port'' (PStr ''3306'')) = Inr 3306"
    by (simp add: example_world_def dict_get_def)
  have f: "py_str example_world (dict_get Map.empty ''host'' (PStr '''')) = Inr ''''
        \<and> py_str example_world (dict_get Map.empty ''port'' (PStr ''1433'')) = Inr ''1433''
        \<and> py_str example_world (dict_get Map.empty ''user'' (PStr '''')) = Inr ''''
        \<and> py_str example_world (dict_get Map.empty ''password'' (PStr '''')) = Inr ''''
        \<and> py_str example_world (dict_get Map.empty ''database'' (PStr '''')) = Inr ''''"
    by (simp add: py_str_def dict_get_def)
  have t: "py_str example_world (dict_get Map.empty ''table'' (PStr '''')) = Inr ''''"
    by (simp add: py_str_def dict_get_def)
  have d: "field_default ''MySQL'' ''port'' = PStr ''3306''"
    by (simp add: field_default_def)
  from absent_credentials_defaults [of example_world Map.empty 3306 "''''" "''1433''" "''''"
      "''''" "''''" "''SELECT * FROM  LIMIT 2;''" "''MySQL''" "''port''" "PStr ''3306''"] e i f t d
  show ?thesis by (simp add: dict_get_def)
qed

text \<open>
  Claim C6 as it is stated fails twice. For the port: with no credentials at all,
  PostgreSQL is asked for a connection on port \<open>'5432'\<close>, not on the empty string. For the
  outcome: with port and password absent and a MySQL server that accepts the defaults,
  the status is \<open>Connected to MySQL successfully!\<close>, so the absence has surfaced as no
  error at all.
\<close>

theorem absent_port_counterexample:
  "(Map.empty :: creds) ''port'' = None
   \<and> snd (validate_db_connection example_world ''PostgreSQL'' Map.empty)
       = [Psycopg2_connect (PStr '''') (PStr ''5432'') (PStr '''') (PStr '''') (PStr '''')]
   \<and> snd (validate_db_connection example_world ''PostgreSQL'' Map.empty)
       \<noteq> [Psycopg2_connect (PStr '''') (PStr '''') (PStr '''') (PStr '''') (PStr '''')]
   \<and> shop_credentials ''port'' = None \<and> shop_credentials ''password'' = None
   \<and> validate_and_fetch_schema example_world ''MySQL'' shop_credentials
       = (''Connected to MySQL successfully!'', PTuple [PList [PStr ''id''], PList []])"
proof -
  have a: "snd (validate_db_connection example_world ''PostgreSQL'' Map.empty)
       = [Psycopg2_connect (PStr '''') (PStr ''5432'') (PStr '''') (PStr '''') (PStr '''')]"
    by code_simp
  have b: "validate_and_fetch_schema example_world ''MySQL'' shop_credentials
       = (''Connected to MySQL successfully!'', PTuple [PList [PStr ''id''], PList []])"
    by code_simp
  from a b show ?thesis by (simp add: shop_credentials_def)
qed

section \<open>get_llm\<close>

text \<open>
  What holds of \<open>get_llm\<close>: with no provider importable it raises \<open>ImportError\<close>; with a
  provider importable and \<open>GOOGLE_API_KEY\<close> unset it raises \<open>ValueError\<close>; and it never
  returns the OpenAI backend, since \<open>'USE_OPENAI' in locals()\<close> is false in every call.
\<close>

lemma get_llm_no_provider:
  "\<not> LANGCHAIN_AVAILABLE m \<Longrightarrow> \<exists>msg. get_llm m environ = Inl (Exn ImportError msg)"
  by (simp add: get_llm_def)

lemma get_llm_google_key_unset:
  "LANGCHAIN_AVAILABLE m \<Longrightarrow> environ ''GOOGLE_API_KEY'' = None
   \<Longrightarrow> \<exists>msg. get_llm m environ = Inl (Exn ValueError msg)"
  by (simp add: get_llm_def get_llm_locals_def)

lemma get_llm_never_openai: "get_llm m environ \<noteq> Inr (ChatOpenAI model temperature)"
  by (simp add: get_llm_def get_llm_locals_def)

text \<open>
  Claim C5 asks that generation fail with a configuration error when the API key of the
  selected provider is unset. Here only \<open>langchain_openai\<close> (with \<open>langchain_core\<close>) can be
  imported, so the import block selects OpenAI (\<open>USE_OPENAI\<close> is \<open>True\<close>);
  \<open>OPENAI_API_KEY\<close> is unset and \<open>GOOGLE_API_KEY\<close> is set. \<open>get_llm\<close> takes its Google
  branch all the same and raises \<open>NameError\<close> for the unbound \<open>ChatGoogleGenerativeAI\<close>, not
  the \<open>ValueError\<close> its OpenAI branch holds for the missing key; \<open>generate_etl_code\<close>
  fails with that \<open>NameError\<close>, which is no configuration error.
\<close>

theorem get_llm_openai_only:
  "USE_OPENAI (import_generator False True True) = Some True
   \<and> [''GOOGLE_API_KEY'' \<mapsto> ''key''] ''OPENAI_API_KEY'' = None
   \<and> get_llm (import_generator False True True) [''GOOGLE_API_KEY'' \<mapsto> ''key'']
       = Inl (name_error ''ChatGoogleGenerativeAI'')
   \<and> generate_etl_code (import_generator False True True) [''GOOGLE_API_KEY'' \<mapsto> ''key'']
         prompt invoke
       = Inl (name_error ''ChatGoogleGenerativeAI'')
   \<and> \<not> is_configuration_error (name_error ''ChatGoogleGenerativeAI'')"
  by (simp add: get_llm_def get_llm_locals_def import_generator_def generate_etl_code_def
      is_configuration_error_def name_error_def)


end
